theory Spec2Isabelle
  imports Main
begin

section \<open>JavaScript values\<close>

text \<open>
  The values the extension stores in its state object and hands around: the fields of
  \<open>AppState\<close> are strings, booleans and arrays of strings; a property that is absent
  reads as \<open>undefined\<close>.
\<close>

datatype jsval = Undefined | Null | Bool bool | Str string | Arr "string list"

text \<open>JavaScript's truthiness (\<open>!x\<close>, \<open>x && y\<close>, \<open>x || y\<close>) on these values.\<close>

fun truthy :: "jsval \<Rightarrow> bool" where
  "truthy Undefined = False"
| "truthy Null = False"
| "truthy (Bool b) = b"
| "truthy (Str s) = (s \<noteq> [])"
| "truthy (Arr xs) = True"

section \<open>State store (state-manager.js)\<close>

text \<open>
  \<open>StateManager\<close> has two fields: the state object and the set of listeners. An object
  is a map from property names to values. A JavaScript \<open>Set\<close> iterates in insertion
  order and holds no duplicates, so the listeners are a list without repetitions.
  A listener is named by an identifier; what \<open>notifyListeners\<close> does is recorded as
  the list of calls it makes, each call being (listener, newState, oldState).
\<close>

record ('k, 'v, 'l) StateManager =
  state :: "'k \<rightharpoonup> 'v"
  listeners :: "'l list"

type_synonym ('k, 'v, 'l) listener_call = "'l \<times> ('k \<rightharpoonup> 'v) \<times> ('k \<rightharpoonup> 'v)"

text \<open>\<open>getState() { return { ...this.state } }\<close>: a copy with the same properties.\<close>

definition getState :: "('k, 'v, 'l) StateManager \<Rightarrow> ('k \<rightharpoonup> 'v)" where
  "getState sm = state sm"

text \<open>\<open>this.listeners.forEach(listener => listener(newState, oldState))\<close>\<close>

definition notifyListeners ::
  "('k, 'v, 'l) StateManager \<Rightarrow> ('k \<rightharpoonup> 'v) \<Rightarrow> ('k \<rightharpoonup> 'v) \<Rightarrow> ('k, 'v, 'l) listener_call list" where
  "notifyListeners sm newState oldState =
     map (\<lambda>listener. (listener, newState, oldState)) (listeners sm)"

text \<open>
  \<open>setState(updates)\<close>: the object spread \<open>{ ...this.state, ...updates }\<close> keeps every
  property of the state and overrides those that \<open>updates\<close> has, which is \<open>++\<close> on maps.
\<close>

definition setState ::
  "('k \<rightharpoonup> 'v) \<Rightarrow> ('k, 'v, 'l) StateManager
     \<Rightarrow> ('k, 'v, 'l) StateManager \<times> ('k, 'v, 'l) listener_call list" where
  "setState updates sm =
     (let oldState = state sm;
          sm' = sm\<lparr>state := state sm ++ updates\<rparr>
      in (sm', notifyListeners sm' (state sm') oldState))"

text \<open>\<open>subscribe\<close> adds to the set; the function it returns deletes from it.\<close>

definition subscribe :: "'l \<Rightarrow> ('k, 'v, 'l) StateManager \<Rightarrow> ('k, 'v, 'l) StateManager" where
  "subscribe listener sm =
     (if listener \<in> set (listeners sm) then sm
      else sm\<lparr>listeners := listeners sm @ [listener]\<rparr>)"

definition unsubscribe :: "'l \<Rightarrow> ('k, 'v, 'l) StateManager \<Rightarrow> ('k, 'v, 'l) StateManager" where
  "unsubscribe listener sm = sm\<lparr>listeners := removeAll listener (listeners sm)\<rparr>"

text \<open>A sequence of \<open>setState\<close> calls, with the calls each one makes to the listeners.\<close>

fun setStates ::
  "('k \<rightharpoonup> 'v) list \<Rightarrow> ('k, 'v, 'l) StateManager
     \<Rightarrow> ('k, 'v, 'l) StateManager \<times> ('k, 'v, 'l) listener_call list list" where
  "setStates [] sm = (sm, [])"
| "setStates (u # us) sm =
     (let (sm1, calls) = setState u sm;
          (sm2, rest) = setStates us sm1
      in (sm2, calls # rest))"


section \<open>Adapter registry (llm-frontend-adapters.js)\<close>

text \<open>
  What an adapter's \<open>detectPage\<close> looks at is the page; the OpenAI adapter asks whether
  the document has an element matching \<open>.ProseMirror[contenteditable="true"]\<close>.
\<close>

record page =
  has_prosemirror_editor :: bool
  has_composer_footer :: bool

record adapter =
  name :: string
  detectPage :: "page \<Rightarrow> bool"

definition OpenAIFrontendAdapter :: adapter where
  "OpenAIFrontendAdapter = \<lparr>name = ''chatgpt'', detectPage = has_prosemirror_editor\<rparr>"

definition LLM_FRONTEND_ADAPTERS :: "adapter list" where
  "LLM_FRONTEND_ADAPTERS = [OpenAIFrontendAdapter]"

text \<open>
  The loop of \<open>getActiveLLMFrontendAdapter\<close> over a registry; \<open>None\<close> is the \<open>null\<close> it
  returns after the loop.
\<close>

fun getActiveLLMFrontendAdapter :: "adapter list \<Rightarrow> page \<Rightarrow> adapter option" where
  "getActiveLLMFrontendAdapter [] pg = None"
| "getActiveLLMFrontendAdapter (a # as) pg =
     (if detectPage a pg then Some a else getActiveLLMFrontendAdapter as pg)"

section \<open>API client (assumptions-api-client.js)\<close>

text \<open>
  A thrown value is an \<open>Error\<close> with its message. The body of the POST request is the
  payload object that \<open>JSON.stringify\<close> serialises.
\<close>

record js_error =
  message :: string

record api_payload =
  prompt :: string
  response :: string
  provider :: jsval

record request =
  url :: string
  http_method :: string
  headers :: "(string \<times> string) list"
  body :: api_payload

text \<open>
  What \<open>fetch\<close> can do: reject with an error, or resolve to a response with a status
  code, a status text and a body whose \<open>json()\<close> either throws or gives the parsed value.
  \<open>res.ok\<close> is true for the status codes 200 to 299.
\<close>

datatype 'd json_outcome = JsonThrows js_error | JsonParsed 'd

record 'd http_response =
  status :: nat
  statusText :: string
  json :: "'d json_outcome"

datatype 'd fetch_outcome = FetchRejects js_error | FetchResolves "'d http_response"

definition ok :: "'d http_response \<Rightarrow> bool" where
  "ok res = (200 \<le> status res \<and> status res \<le> 299)"

text \<open>
  \<open>ReasoningResult\<close>: \<open>{success, data}\<close> or \<open>{success, error}\<close>; a property that the object
  does not have is \<open>None\<close>.
\<close>

record 'd ReasoningResult =
  success :: bool
  data :: "'d option"
  error :: "string option"

record AssumptionsAPIClient =
  apiEndpoint :: string
  client_provider :: jsval

definition API_ENDPOINT :: string where
  "API_ENDPOINT = ''http://localhost:8000/assumptions/extract-assumptions''"

definition new_AssumptionsAPIClient :: "jsval \<Rightarrow> AssumptionsAPIClient" where
  "new_AssumptionsAPIClient prov = \<lparr>apiEndpoint = API_ENDPOINT, client_provider = prov\<rparr>"

text \<open>The decimal digits of a number, as the template string \<open>${res.status}\<close> prints it.\<close>

fun number_toString :: "nat \<Rightarrow> string" where
  "number_toString n =
     (if n < 10 then [char_of (48 + n)]
      else number_toString (n div 10) @ [char_of (48 + n mod 10)])"

declare number_toString.simps [simp del]

text \<open>The \<open>catch\<close> branch: \<open>{ success: false, error: error.message || "Unknown error" }\<close>.\<close>

definition caught :: "js_error \<Rightarrow> 'd ReasoningResult" where
  "caught e =
     \<lparr>success = False, data = None,
      error = Some (if message e \<noteq> [] then message e else ''Unknown error'')\<rparr>"

definition extract_request :: "AssumptionsAPIClient \<Rightarrow> string \<Rightarrow> string \<Rightarrow> request" where
  "extract_request c p r =
     \<lparr>url = apiEndpoint c, http_method = ''POST'',
      headers = [(''Content-Type'', ''application/json'')],
      body = \<lparr>prompt = p, response = r, provider = client_provider c\<rparr>\<rparr>"

text \<open>
  \<open>extractReasoning(prompt, response)\<close>. The network is the function that answers a
  request. The result is the list of requests issued together with the way the promise
  settles: \<open>Inl\<close> when it rejects (the function threw), \<open>Inr\<close> when it resolves.
\<close>

definition extractReasoning ::
  "AssumptionsAPIClient \<Rightarrow> (request \<Rightarrow> 'd fetch_outcome) \<Rightarrow> string \<Rightarrow> string
     \<Rightarrow> request list \<times> (js_error + 'd ReasoningResult)" where
  "extractReasoning c net p r =
     (if \<not> truthy (client_provider c)
      then ([], Inl \<lparr>message = ''Provider is required for extracting reasoning.''\<rparr>)
      else
        let req = extract_request c p r in
        ([req],
         Inr (case net req of
                FetchRejects e \<Rightarrow> caught e
              | FetchResolves res \<Rightarrow>
                  if \<not> ok res
                  then caught \<lparr>message = ''HTTP '' @ number_toString (status res) @ '': '' @ statusText res\<rparr>
                  else (case json res of
                          JsonThrows e \<Rightarrow> caught e
                        | JsonParsed d \<Rightarrow> \<lparr>success = True, data = Some d, error = None\<rparr>))))"

section \<open>Strings\<close>

text \<open>
  \<open>String.prototype.trim\<close> removes white space and line terminators at both ends. A
  \<open>char\<close> is a byte here, so the white space is the ASCII one: tab, line feed, vertical
  tab, form feed, carriage return and space.
\<close>

definition is_space :: "char \<Rightarrow> bool" where
  "is_space c = (c \<in> {CHR 0x09, CHR 0x0A, CHR 0x0B, CHR 0x0C, CHR 0x0D, CHR '' ''})"

definition js_trim :: "string \<Rightarrow> string" where
  "js_trim s = rev (dropWhile is_space (rev (dropWhile is_space s)))"

text \<open>
  \<open>s.replace(/[.?!]*$/, '')\<close>: the first match is at the leftmost position from which
  only the characters \<open>.\<close>, \<open>?\<close> and \<open>!\<close> follow up to the end; it is removed.
\<close>

definition is_end_punct :: "char \<Rightarrow> bool" where
  "is_end_punct c = (c \<in> {CHR ''.'', CHR ''?'', CHR ''!''})"

fun strip_end_punct :: "string \<Rightarrow> string" where
  "strip_end_punct [] = []"
| "strip_end_punct (c # cs) =
     (if list_all is_end_punct (c # cs) then [] else c # strip_end_punct cs)"

text \<open>\<open>Array.prototype.join\<close> on an array of strings.\<close>

fun js_join :: "string \<Rightarrow> string list \<Rightarrow> string" where
  "js_join sep [] = []"
| "js_join sep [x] = x"
| "js_join sep (x # y # ys) = x @ sep @ js_join sep (y # ys)"

section \<open>Application state (constants.js, state-manager.js)\<close>

type_synonym AppState = "string \<rightharpoonup> jsval"

definition EDIT :: string where "EDIT = ''edit''"
definition ASSUMPTIONS :: string where "ASSUMPTIONS = ''assumptions''"
definition ANALYZING :: string where "ANALYZING = ''analyzing''"

definition default_state :: AppState where
  "default_state =
     [''userPrompt'' \<mapsto> Str [], ''aiResponse'' \<mapsto> Str [], ''assumptions'' \<mapsto> Arr [],
      ''savedPrompt'' \<mapsto> Str [], ''savedResponse'' \<mapsto> Str [],
      ''currentMode'' \<mapsto> Str EDIT, ''isAnalyzing'' \<mapsto> Bool False]"

definition new_StateManager :: "(string, jsval, 'l) StateManager" where
  "new_StateManager = \<lparr>state = default_state, listeners = []\<rparr>"

text \<open>\<open>reset()\<close> is a \<open>setState\<close> with the default value of every field.\<close>

definition reset ::
  "(string, jsval, 'l) StateManager
     \<Rightarrow> (string, jsval, 'l) StateManager \<times> (string, jsval, 'l) listener_call list" where
  "reset sm = setState default_state sm"

text \<open>Reading a property: one that the object does not have reads as \<open>undefined\<close>.\<close>

definition get_prop :: "AppState \<Rightarrow> string \<Rightarrow> jsval" where
  "get_prop st k = (case st k of None \<Rightarrow> Undefined | Some v \<Rightarrow> v)"

text \<open>\<open>v && v.length > 0\<close>: only a non-empty array or string passes.\<close>

fun has_items :: "jsval \<Rightarrow> bool" where
  "has_items (Arr xs) = (xs \<noteq> [])"
| "has_items (Str s) = (s \<noteq> [])"
| "has_items v = False"

text \<open>
  The fields of \<open>AppState\<close> are typed by its typedef: \<open>assumptions\<close> is an array of
  strings, \<open>savedPrompt\<close> a string. \<open>arr_or_empty\<close> is \<open>v || []\<close> and the default
  parameter \<open>arr = []\<close>, \<open>str_or_empty\<close> is \<open>v || ''\<close>, on the values of these types and
  on \<open>undefined\<close>; the controller stores no other value in these fields (lemma
  \<open>run_typed\<close> below).
\<close>

fun arr_or_empty :: "jsval \<Rightarrow> string list" where
  "arr_or_empty (Arr xs) = xs"
| "arr_or_empty v = []"

fun str_or_empty :: "jsval \<Rightarrow> string" where
  "str_or_empty (Str s) = s"
| "str_or_empty v = []"

section \<open>Input page (input-page.js)\<close>

text \<open>
  The page's DOM, as far as its methods read and write it: the \<open>display\<close> of the
  container and of the Forward button (true when it is not \<open>none\<close>), the \<open>disabled\<close>
  flags of the two buttons and the values of the two text areas.
\<close>

record InputPage =
  ip_display :: bool
  userPrompt_value :: string
  aiResponse_value :: string
  analyzeBtn_disabled :: bool
  forwardBtn_display :: bool
  forwardBtn_disabled :: bool
  inputsChangedSinceAnalyze :: bool

definition new_InputPage :: InputPage where
  "new_InputPage =
     \<lparr>ip_display = True, userPrompt_value = [], aiResponse_value = [],
      analyzeBtn_disabled = True, forwardBtn_display = False, forwardBtn_disabled = True,
      inputsChangedSinceAnalyze = True\<rparr>"

definition showForwardButton :: "InputPage \<Rightarrow> InputPage" where
  "showForwardButton ip = ip\<lparr>forwardBtn_display := True, forwardBtn_disabled := False\<rparr>"

definition hideForwardButton :: "InputPage \<Rightarrow> InputPage" where
  "hideForwardButton ip = ip\<lparr>forwardBtn_display := False, forwardBtn_disabled := True\<rparr>"

definition updateAnalyzeButton :: "InputPage \<Rightarrow> InputPage" where
  "updateAnalyzeButton ip =
     (let bothInputsFilled = (js_trim (userPrompt_value ip) \<noteq> [] \<and> js_trim (aiResponse_value ip) \<noteq> [])
      in ip\<lparr>analyzeBtn_disabled := \<not> (bothInputsFilled \<and> inputsChangedSinceAnalyze ip)\<rparr>)"

definition handleInputChange :: "InputPage \<Rightarrow> InputPage" where
  "handleInputChange ip =
     updateAnalyzeButton (hideForwardButton (ip\<lparr>inputsChangedSinceAnalyze := True\<rparr>))"

definition ip_setUserPrompt :: "string \<Rightarrow> InputPage \<Rightarrow> InputPage" where
  "ip_setUserPrompt text ip = handleInputChange (ip\<lparr>userPrompt_value := text\<rparr>)"

definition ip_setAIResponse :: "string \<Rightarrow> InputPage \<Rightarrow> InputPage" where
  "ip_setAIResponse text ip = handleInputChange (ip\<lparr>aiResponse_value := text\<rparr>)"

definition getUserPrompt :: "InputPage \<Rightarrow> string" where
  "getUserPrompt ip = js_trim (userPrompt_value ip)"

definition getAIResponse :: "InputPage \<Rightarrow> string" where
  "getAIResponse ip = js_trim (aiResponse_value ip)"

section \<open>Assumptions page (assumptions-page.js)\<close>

text \<open>
  A bubble is what \<open>_createAssumptionBubble\<close> builds for one index: the span with the
  text and the edit input with its value, one of them displayed.
\<close>

record bubble =
  span_text :: string
  span_display :: bool
  input_value :: string
  input_display :: bool

record AssumptionsPage =
  asp_display :: bool
  asp_assumptions :: "string list"
  bubbles :: "bubble list"
  no_assumptions_notice :: bool

definition new_AssumptionsPage :: AssumptionsPage where
  "new_AssumptionsPage =
     \<lparr>asp_display = True, asp_assumptions = [], bubbles = [], no_assumptions_notice = False\<rparr>"

definition createAssumptionBubble :: "string \<Rightarrow> bubble" where
  "createAssumptionBubble text =
     \<lparr>span_text = text, span_display = True, input_value = text, input_display = False\<rparr>"

definition renderAssumptions :: "AssumptionsPage \<Rightarrow> AssumptionsPage" where
  "renderAssumptions ap =
     (if length (asp_assumptions ap) = 0
      then ap\<lparr>bubbles := [], no_assumptions_notice := True\<rparr>
      else ap\<lparr>bubbles := map createAssumptionBubble (asp_assumptions ap),
              no_assumptions_notice := False\<rparr>)"

definition asp_setAssumptions :: "string list \<Rightarrow> AssumptionsPage \<Rightarrow> AssumptionsPage" where
  "asp_setAssumptions xs ap = renderAssumptions (ap\<lparr>asp_assumptions := xs\<rparr>)"

text \<open>\<open>this.assumptions.splice(index, 1)\<close>; an index past the end removes nothing.\<close>

definition splice1 :: "nat \<Rightarrow> 'a list \<Rightarrow> 'a list" where
  "splice1 i xs = take i xs @ drop (Suc i) xs"

text \<open>
  \<open>this.assumptions[index] = v\<close>. An index past the end would make a sparse array,
  which a list of strings does not represent: that case is \<open>None\<close>. The handler that
  assigns belongs to a bubble, and a bubble's index is an index of the list (lemma
  \<open>run_bubbles\<close> below).
\<close>

definition array_assign :: "'a list \<Rightarrow> nat \<Rightarrow> 'a \<Rightarrow> 'a list option" where
  "array_assign xs i v = (if i < length xs then Some (xs[i := v]) else None)"

text \<open>The click handler of the edit button and the \<open>blur\<close> handler of the input.\<close>

definition editBtn_click :: "nat \<Rightarrow> AssumptionsPage \<Rightarrow> AssumptionsPage" where
  "editBtn_click i ap =
     ap\<lparr>bubbles := (bubbles ap)[i := (bubbles ap ! i)\<lparr>span_display := False, input_display := True\<rparr>]\<rparr>"

definition input_blur :: "nat \<Rightarrow> AssumptionsPage \<Rightarrow> AssumptionsPage" where
  "input_blur i ap =
     ap\<lparr>bubbles := (bubbles ap)[i := (bubbles ap ! i)\<lparr>span_display := True, input_display := False\<rparr>]\<rparr>"

text \<open>The user typing into the edit input of bubble \<open>i\<close> changes its value.\<close>

definition input_typed :: "nat \<Rightarrow> string \<Rightarrow> AssumptionsPage \<Rightarrow> AssumptionsPage" where
  "input_typed i text ap =
     ap\<lparr>bubbles := (bubbles ap)[i := (bubbles ap ! i)\<lparr>input_value := text\<rparr>]\<rparr>"

section \<open>Panel controller (panel-manager.js)\<close>

text \<open>
  The controller with the three pages it owns. The one listener of the store is the
  controller's \<open>_handleStateChange\<close>. \<open>insertPrompt_calls\<close> are the texts handed to the
  adapter's \<open>insertPrompt\<close>, \<open>pending\<close> the \<open>extractReasoning\<close> calls that have not settled
  yet, each with its prompt and response. The data of a response is typed by
  \<open>ReasoningResult\<close>: an object whose \<open>assumptions\<close> field, when it is there, is an array
  of strings.
\<close>

datatype listener = PanelListener

record response_data =
  assumptions :: "string list option"

record PanelManager =
  stateManager :: "(string, jsval, listener) StateManager"
  apiClient :: AssumptionsAPIClient
  currentMode :: jsval
  titleText :: string
  panel_visible :: bool
  inputPage :: InputPage
  analyzingPage_display :: bool
  assumptionsPage :: AssumptionsPage
  insertPrompt_calls :: "string list"
  pending :: "(string \<times> string) list"

text \<open>\<open>_arraysEqual(arr1 = [], arr2 = [])\<close>: the lengths, then the elements by index.\<close>

definition arraysEqual :: "jsval \<Rightarrow> jsval \<Rightarrow> bool" where
  "arraysEqual v1 v2 =
     (let arr1 = arr_or_empty v1; arr2 = arr_or_empty v2
      in if length arr1 \<noteq> length arr2 then False
         else (\<forall>i \<in> set [0..<length arr1]. arr1 ! i = arr2 ! i))"

definition updateModeUI :: "jsval \<Rightarrow> PanelManager \<Rightarrow> PanelManager" where
  "updateModeUI mode pm =
     (let st = getState (stateManager pm);
          ip = inputPage pm;
          ap = assumptionsPage pm
      in if mode = Str EDIT then
           pm\<lparr>titleText := ''Analyze Prompt'',
              inputPage :=
                (if has_items (get_prop st ''assumptions'')
                 then showForwardButton (ip\<lparr>ip_display := True\<rparr>)
                 else hideForwardButton (ip\<lparr>ip_display := True\<rparr>)),
              analyzingPage_display := False,
              assumptionsPage := ap\<lparr>asp_display := False\<rparr>\<rparr>
         else if mode = Str ANALYZING then
           pm\<lparr>titleText := ''Analyzing...'',
              inputPage := hideForwardButton (ip\<lparr>ip_display := False\<rparr>),
              analyzingPage_display := True,
              assumptionsPage := ap\<lparr>asp_display := False\<rparr>\<rparr>
         else if mode = Str ASSUMPTIONS then
           pm\<lparr>titleText := ''Assumptions'',
              inputPage := hideForwardButton (ip\<lparr>ip_display := False\<rparr>),
              analyzingPage_display := False,
              assumptionsPage := ap\<lparr>asp_display := True\<rparr>\<rparr>
         else
           pm\<lparr>inputPage := hideForwardButton (ip\<lparr>ip_display := True\<rparr>),
              analyzingPage_display := False,
              assumptionsPage := ap\<lparr>asp_display := False\<rparr>\<rparr>)"

definition handleStateChange :: "AppState \<Rightarrow> AppState \<Rightarrow> PanelManager \<Rightarrow> PanelManager" where
  "handleStateChange newState oldState pm =
     (let pm1 = (if get_prop newState ''currentMode'' \<noteq> get_prop oldState ''currentMode''
                 then updateModeUI (get_prop newState ''currentMode'')
                        (pm\<lparr>currentMode := get_prop newState ''currentMode''\<rparr>)
                 else pm);
          assumptionsChanged =
            (\<not> arraysEqual (get_prop newState ''assumptions'') (get_prop oldState ''assumptions''))
      in if assumptionsChanged
         then pm1\<lparr>assumptionsPage :=
                    asp_setAssumptions (arr_or_empty (get_prop newState ''assumptions''))
                      (assumptionsPage pm1)\<rparr>
         else pm1)"

text \<open>
  \<open>this.stateManager.setState(updates)\<close> as the controller sees it: the store merges, then
  every call it makes to a listener runs that listener on the controller.
\<close>

fun invoke_listener :: "listener \<Rightarrow> AppState \<Rightarrow> AppState \<Rightarrow> PanelManager \<Rightarrow> PanelManager" where
  "invoke_listener PanelListener newState oldState pm = handleStateChange newState oldState pm"

definition pm_setState :: "AppState \<Rightarrow> PanelManager \<Rightarrow> PanelManager" where
  "pm_setState updates pm =
     (let (sm', calls) = setState updates (stateManager pm)
      in foldl (\<lambda>q (l, newState, oldState). invoke_listener l newState oldState q)
               (pm\<lparr>stateManager := sm'\<rparr>) calls)"

text \<open>
  \<open>_handleAnalyze\<close> runs up to its \<open>await\<close> (\<open>handleAnalyze_begin\<close>) and goes on when the
  promise of its \<open>extractReasoning\<close> call, the \<open>k\<close>-th pending one, settles
  (\<open>handleAnalyze_settle\<close>): \<open>Inl\<close> is a rejection, which the \<open>catch\<close> takes, as it takes the
  TypeError of \<open>result.data.assumptions\<close> when the result has no data.
\<close>

definition handleAnalyze_begin :: "string \<Rightarrow> string \<Rightarrow> PanelManager \<Rightarrow> PanelManager" where
  "handleAnalyze_begin userPrompt aiResponse pm =
     (let pm1 = pm_setState
                  [''isAnalyzing'' \<mapsto> Bool True, ''savedPrompt'' \<mapsto> Str userPrompt,
                   ''savedResponse'' \<mapsto> Str aiResponse, ''currentMode'' \<mapsto> Str ANALYZING] pm
      in pm1\<lparr>pending := pending pm1 @ [(userPrompt, aiResponse)]\<rparr>)"

definition back_to_edit :: "PanelManager \<Rightarrow> PanelManager" where
  "back_to_edit pm = pm_setState [''isAnalyzing'' \<mapsto> Bool False, ''currentMode'' \<mapsto> Str EDIT] pm"

definition handleAnalyze_settle ::
  "nat \<Rightarrow> js_error + response_data ReasoningResult \<Rightarrow> PanelManager \<Rightarrow> PanelManager" where
  "handleAnalyze_settle k outcome pm =
     (let pm0 = pm\<lparr>pending := splice1 k (pending pm)\<rparr>
      in case outcome of
           Inl e \<Rightarrow> back_to_edit pm0
         | Inr result \<Rightarrow>
             if success result then
               (case data result of
                  None \<Rightarrow> back_to_edit pm0
                | Some d \<Rightarrow>
                    let xs = (case assumptions d of None \<Rightarrow> [] | Some ys \<Rightarrow> ys);
                        pm1 = pm_setState
                                [''assumptions'' \<mapsto> Arr xs, ''isAnalyzing'' \<mapsto> Bool False,
                                 ''currentMode'' \<mapsto> Str ASSUMPTIONS] pm0
                    in pm1\<lparr>assumptionsPage := asp_setAssumptions xs (assumptionsPage pm1)\<rparr>)
             else back_to_edit pm0)"

definition handleForward :: "PanelManager \<Rightarrow> PanelManager" where
  "handleForward pm =
     (let st = getState (stateManager pm)
      in if has_items (get_prop st ''assumptions'')
         then pm_setState [''currentMode'' \<mapsto> Str ASSUMPTIONS] pm
         else pm)"

text \<open>The text that \<open>_handleReprompt\<close> builds from the state.\<close>

definition reprompt_preamble :: string where
  "reprompt_preamble = ''Please answer the following: ''"

definition reprompt_instruction :: string where
  "reprompt_instruction =
     ''. When answering, make ONLY the following assumptions about the user'' @ [CHR 0x27]
       @ ''s request:'' @ [CHR 0x0A]"

definition reprompt_text :: "AppState \<Rightarrow> string" where
  "reprompt_text st =
     (let cleanedPrompt = strip_end_punct (js_trim (str_or_empty (get_prop st ''savedPrompt'')))
      in reprompt_preamble @ cleanedPrompt @ reprompt_instruction
           @ js_join [CHR 0x0A] (map (\<lambda>a. ''- '' @ a) (arr_or_empty (get_prop st ''assumptions''))))"

definition handleReprompt :: "PanelManager \<Rightarrow> PanelManager" where
  "handleReprompt pm =
     (let st = getState (stateManager pm)
      in pm\<lparr>insertPrompt_calls := insertPrompt_calls pm @ [reprompt_text st]\<rparr>)"

definition handleUpdateAssumptions :: "string list \<Rightarrow> PanelManager \<Rightarrow> PanelManager" where
  "handleUpdateAssumptions updatedAssumptions pm =
     pm_setState [''assumptions'' \<mapsto> Arr updatedAssumptions] pm"

definition enterEditMode :: "PanelManager \<Rightarrow> PanelManager" where
  "enterEditMode pm = pm_setState [''currentMode'' \<mapsto> Str EDIT] pm"

definition pm_setUserPrompt :: "string \<Rightarrow> PanelManager \<Rightarrow> PanelManager" where
  "pm_setUserPrompt text pm = pm\<lparr>inputPage := ip_setUserPrompt text (inputPage pm)\<rparr>"

definition pm_setAIResponse :: "string \<Rightarrow> PanelManager \<Rightarrow> PanelManager" where
  "pm_setAIResponse text pm = pm\<lparr>inputPage := ip_setAIResponse text (inputPage pm)\<rparr>"

definition pm_show :: "PanelManager \<Rightarrow> PanelManager" where
  "pm_show pm = pm\<lparr>panel_visible := True\<rparr>"

definition pm_hide :: "PanelManager \<Rightarrow> PanelManager" where
  "pm_hide pm = pm\<lparr>panel_visible := False\<rparr>"

text \<open>
  The constructor: the pages are built, the mode is \<open>edit\<close>, \<open>_updateModeUI\<close> runs once,
  then the controller subscribes to the store.
\<close>

definition new_PanelManager ::
  "(string, jsval, listener) StateManager \<Rightarrow> AssumptionsAPIClient \<Rightarrow> PanelManager" where
  "new_PanelManager sm client =
     (let pm0 = \<lparr>stateManager = sm, apiClient = client, currentMode = Str EDIT,
                 titleText = ''Analyze Prompt'', panel_visible = False,
                 inputPage = new_InputPage, analyzingPage_display = True,
                 assumptionsPage = new_AssumptionsPage,
                 insertPrompt_calls = [], pending = []\<rparr>;
          pm1 = updateModeUI (currentMode pm0) pm0
      in pm1\<lparr>stateManager := subscribe PanelListener (stateManager pm1)\<rparr>)"

text \<open>\<open>GlassOSApp\<close> builds the controller on a fresh store.\<close>

definition app_panel :: "AssumptionsAPIClient \<Rightarrow> PanelManager" where
  "app_panel client = new_PanelManager new_StateManager client"

subsection \<open>The handlers the pages bind\<close>

text \<open>The click handlers of the Analyze and Forward buttons (\<open>InputPage._bindEvents\<close>).\<close>

definition analyzeBtn_click :: "PanelManager \<Rightarrow> PanelManager" where
  "analyzeBtn_click pm =
     (let ip = inputPage pm
      in if \<not> analyzeBtn_disabled ip \<and> inputsChangedSinceAnalyze ip then
           (let pm1 = handleAnalyze_begin (getUserPrompt ip) (getAIResponse ip) pm
            in pm1\<lparr>inputPage :=
                 updateAnalyzeButton
                   (hideForwardButton ((inputPage pm1)\<lparr>inputsChangedSinceAnalyze := False\<rparr>))\<rparr>)
         else pm)"

definition forwardBtn_click :: "PanelManager \<Rightarrow> PanelManager" where
  "forwardBtn_click pm =
     (if \<not> forwardBtn_disabled (inputPage pm) then handleForward pm else pm)"

text \<open>
  \<open>_updateAssumptionsState\<close>, the delete handler and the \<open>keydown\<close> handler of the edit
  input of bubble \<open>index\<close> (\<open>AssumptionsPage._createAssumptionBubble\<close>). Lists are values
  here. In the source the page's array can be the very array the state holds (after an
  edit that changed no text); the page then changes the state's array in place, and the
  listener, comparing the array with itself, does not call \<open>setAssumptions\<close>. The page
  has rendered its list before it reports it, so the lists and the bubbles are the
  same in both cases.
\<close>

definition updateAssumptionsState :: "PanelManager \<Rightarrow> PanelManager" where
  "updateAssumptionsState pm =
     (let ap = renderAssumptions (assumptionsPage pm)
      in handleUpdateAssumptions (asp_assumptions ap) (pm\<lparr>assumptionsPage := ap\<rparr>))"

definition delBtn_click :: "nat \<Rightarrow> PanelManager \<Rightarrow> PanelManager" where
  "delBtn_click index pm =
     (let ap = assumptionsPage pm
      in updateAssumptionsState
           (pm\<lparr>assumptionsPage := ap\<lparr>asp_assumptions := splice1 index (asp_assumptions ap)\<rparr>\<rparr>))"

definition input_keydown :: "nat \<Rightarrow> string \<Rightarrow> PanelManager \<Rightarrow> PanelManager" where
  "input_keydown index key pm =
     (let ap = assumptionsPage pm;
          b = bubbles ap ! index
      in if key = ''Enter'' then
           (case array_assign (asp_assumptions ap) index (js_trim (input_value b)) of
              None \<Rightarrow> pm
            | Some xs \<Rightarrow> updateAssumptionsState (pm\<lparr>assumptionsPage := ap\<lparr>asp_assumptions := xs\<rparr>\<rparr>))
         else if key = ''Escape'' then
           pm\<lparr>assumptionsPage :=
                ap\<lparr>bubbles := (bubbles ap)
                      [index := b\<lparr>input_value :=
                                     (if index < length (asp_assumptions ap)
                                      then asp_assumptions ap ! index else ''undefined''),
                                   span_display := True, input_display := False\<rparr>]\<rparr>\<rparr>
         else pm)"

text \<open>\<open>SelectionToolbar._insertSelection\<close> with the trimmed text of the selection.\<close>

definition insertSelection :: "bool \<Rightarrow> string \<Rightarrow> PanelManager \<Rightarrow> PanelManager" where
  "insertSelection is_user selection pm =
     (let selectedText = js_trim selection
      in if selectedText = [] then pm
         else enterEditMode
                ((if is_user then pm_setUserPrompt selectedText else pm_setAIResponse selectedText)
                   (pm_show pm)))"

subsection \<open>Runs\<close>

text \<open>
  What can happen to the panel, one event at a time: the user types into a text area
  (the value changes at once, the debounced \<open>_handleInputChange\<close> fires later), clicks a
  button, edits a bubble; a pending request settles; the selection toolbar inserts a
  selection; the panel is shown or closed. The browser delivers the events of a bubble
  only while the bubble exists and the assumptions page is displayed.
\<close>

datatype event =
    UserTypesPrompt string
  | UserTypesResponse string
  | InputDebounceFires
  | ClickAnalyze
  | ClickForward
  | ClickBack
  | ClickReprompt
  | ClickEdit nat
  | UserTypesEdit nat string
  | KeyDown nat string
  | Blur nat
  | ClickDelete nat
  | FetchSettles nat "response_data fetch_outcome"
  | ToolbarInsert bool string
  | ClickToggle
  | ClickClose

definition bubble_event :: "nat \<Rightarrow> PanelManager \<Rightarrow> bool" where
  "bubble_event i pm =
     (asp_display (assumptionsPage pm) \<and> i < length (bubbles (assumptionsPage pm)))"

fun step :: "PanelManager \<Rightarrow> event \<Rightarrow> PanelManager" where
  "step pm (UserTypesPrompt text) = pm\<lparr>inputPage := (inputPage pm)\<lparr>userPrompt_value := text\<rparr>\<rparr>"
| "step pm (UserTypesResponse text) = pm\<lparr>inputPage := (inputPage pm)\<lparr>aiResponse_value := text\<rparr>\<rparr>"
| "step pm InputDebounceFires = pm\<lparr>inputPage := handleInputChange (inputPage pm)\<rparr>"
| "step pm ClickAnalyze = analyzeBtn_click pm"
| "step pm ClickForward = forwardBtn_click pm"
| "step pm ClickBack = enterEditMode pm"
| "step pm ClickReprompt = handleReprompt pm"
| "step pm (ClickEdit i) =
     (if bubble_event i pm then pm\<lparr>assumptionsPage := editBtn_click i (assumptionsPage pm)\<rparr> else pm)"
| "step pm (UserTypesEdit i text) =
     (if bubble_event i pm then pm\<lparr>assumptionsPage := input_typed i text (assumptionsPage pm)\<rparr> else pm)"
| "step pm (KeyDown i key) = (if bubble_event i pm then input_keydown i key pm else pm)"
| "step pm (Blur i) =
     (if bubble_event i pm then pm\<lparr>assumptionsPage := input_blur i (assumptionsPage pm)\<rparr> else pm)"
| "step pm (ClickDelete i) = (if bubble_event i pm then delBtn_click i pm else pm)"
| "step pm (FetchSettles k answer) =
     (if k < length (pending pm) then
        (let (p, r) = pending pm ! k
         in handleAnalyze_settle k (snd (extractReasoning (apiClient pm) (\<lambda>req. answer) p r)) pm)
      else pm)"
| "step pm (ToolbarInsert is_user selection) = insertSelection is_user selection pm"
| "step pm ClickToggle = pm_show pm"
| "step pm ClickClose = pm_hide pm"

definition run :: "event list \<Rightarrow> PanelManager \<Rightarrow> PanelManager" where
  "run evs pm = foldl step pm evs"

subsection \<open>What the properties read off a controller\<close>

definition app_state :: "PanelManager \<Rightarrow> AppState" where
  "app_state pm = getState (stateManager pm)"

text \<open>The Forward button is visible when its \<open>display\<close> is not \<open>none\<close>.\<close>

definition forward_visible :: "PanelManager \<Rightarrow> bool" where
  "forward_visible pm = forwardBtn_display (inputPage pm)"

definition mode_of :: "PanelManager \<Rightarrow> jsval" where
  "mode_of pm = get_prop (app_state pm) ''currentMode''"

definition assumptions_of :: "PanelManager \<Rightarrow> string list" where
  "assumptions_of pm = arr_or_empty (get_prop (app_state pm) ''assumptions'')"

text \<open>A failed analysis: the promise rejects, or its result has \<open>success\<close> false.\<close>

definition analysis_failed :: "js_error + 'd ReasoningResult \<Rightarrow> bool" where
  "analysis_failed outcome = (case outcome of Inl e \<Rightarrow> True | Inr result \<Rightarrow> \<not> success result)"

subsection \<open>Invariants of runs\<close>

text \<open>
  What holds of the controller after every event: it is the one subscriber of the
  store; the Forward button is displayed only in \<open>edit\<close> mode with a non-empty list; the
  assumptions page is displayed only in \<open>assumptions\<close> mode.
\<close>

definition panel_inv :: "PanelManager \<Rightarrow> bool" where
  "panel_inv pm \<longleftrightarrow>
     listeners (stateManager pm) = [PanelListener] \<and>
     (forward_visible pm \<longrightarrow>
        get_prop (app_state pm) ''currentMode'' = Str EDIT \<and>
        has_items (get_prop (app_state pm) ''assumptions'')) \<and>
     (asp_display (assumptionsPage pm) \<longrightarrow> get_prop (app_state pm) ''currentMode'' = Str ASSUMPTIONS)"

text \<open>
  The fields of the state have the types of the \<open>AppState\<close> typedef, and \<open>savedPrompt\<close>
  is trimmed; an update that keeps it so.
\<close>

definition typed_state :: "AppState \<Rightarrow> bool" where
  "typed_state st \<longleftrightarrow>
     (\<exists>xs. get_prop st ''assumptions'' = Arr xs) \<and>
     (\<exists>p. get_prop st ''savedPrompt'' = Str p \<and> js_trim p = p) \<and>
     (\<exists>m. get_prop st ''currentMode'' = Str m)"

definition typed_update :: "AppState \<Rightarrow> bool" where
  "typed_update u \<longleftrightarrow>
     (\<forall>v. u ''assumptions'' = Some v \<longrightarrow> (\<exists>xs. v = Arr xs)) \<and>
     (\<forall>v. u ''savedPrompt'' = Some v \<longrightarrow> (\<exists>p. v = Str p \<and> js_trim p = p)) \<and>
     (\<forall>v. u ''currentMode'' = Some v \<longrightarrow> (\<exists>m. v = Str m))"

text \<open>There is one bubble for each index of the page's list.\<close>

definition bubbles_ok :: "AssumptionsPage \<Rightarrow> bool" where
  "bubbles_ok ap \<longleftrightarrow> length (bubbles ap) = length (asp_assumptions ap)"

subsection \<open>An example run\<close>

text \<open>
  The user enters a prompt and a response and clicks Analyze; the backend answers with
  the two assumptions \<open>X\<close> and \<open>Y\<close>.
\<close>

definition example_client :: AssumptionsAPIClient where
  "example_client = new_AssumptionsAPIClient (Str ''openai'')"

definition example_answer :: "string list \<Rightarrow> response_data fetch_outcome" where
  "example_answer xs =
     FetchResolves \<lparr>status = 200, statusText = ''OK'', json = JsonParsed \<lparr>assumptions = Some xs\<rparr>\<rparr>"

definition example_analysis :: "event list" where
  "example_analysis =
     [UserTypesPrompt ''Translate this.'', UserTypesResponse ''Traduis ceci.'',
      InputDebounceFires, ClickAnalyze, FetchSettles 0 (example_answer [''X'', ''Y''])]"

section \<open>Properties of the state store\<close>


lemma setState_listeners: "listeners (fst (setState u sm)) = listeners sm"
  by (simp add: setState_def Let_def)



lemma setStates_listeners: "listeners (fst (setStates us sm)) = listeners sm"
  by (induction us arbitrary: sm)
     (simp_all add: split_beta Let_def setState_listeners)





section \<open>Properties of the adapter registry\<close>

lemma getActive_find:
  "getActiveLLMFrontendAdapter as pg = find (\<lambda>a. detectPage a pg) as"
  by (induction as) simp_all

text \<open>
  C9. The lookup returns the first adapter, in registration order, whose \<open>detectPage()\<close>
  is true: every adapter registered before it does not detect the page. It returns
  \<open>null\<close> exactly when no registered adapter detects the page.
\<close>

theorem getActive_first_match:
  "(getActiveLLMFrontendAdapter as pg = None \<longleftrightarrow> (\<forall>a \<in> set as. \<not> detectPage a pg)) \<and>
   (\<forall>a. getActiveLLMFrontendAdapter as pg = Some a \<longleftrightarrow>
      (\<exists>i<length as. as ! i = a \<and> detectPage a pg \<and> (\<forall>j<i. \<not> detectPage (as ! j) pg)))"
  by (simp add: getActive_find find_None_iff find_Some_iff) blast

theorem getActive_first_match_witness:
  "getActiveLLMFrontendAdapter LLM_FRONTEND_ADAPTERS
       \<lparr>has_prosemirror_editor = True, has_composer_footer = False\<rparr> = Some OpenAIFrontendAdapter
   \<and> (\<exists>i<length LLM_FRONTEND_ADAPTERS. LLM_FRONTEND_ADAPTERS ! i = OpenAIFrontendAdapter
        \<and> (\<forall>j<i. \<not> detectPage (LLM_FRONTEND_ADAPTERS ! j)
              \<lparr>has_prosemirror_editor = True, has_composer_footer = False\<rparr>))
   \<and> getActiveLLMFrontendAdapter LLM_FRONTEND_ADAPTERS
       \<lparr>has_prosemirror_editor = False, has_composer_footer = True\<rparr> = None"
  using getActive_first_match [of LLM_FRONTEND_ADAPTERS
          "\<lparr>has_prosemirror_editor = True, has_composer_footer = False\<rparr>"]
        getActive_first_match [of LLM_FRONTEND_ADAPTERS
          "\<lparr>has_prosemirror_editor = False, has_composer_footer = True\<rparr>"]
  by (simp add: LLM_FRONTEND_ADAPTERS_def OpenAIFrontendAdapter_def)

section \<open>Properties of the API client\<close>

lemma caught_failure:
  "\<exists>msg. msg \<noteq> [] \<and> (caught e :: 'd ReasoningResult) = \<lparr>success = False, data = None, error = Some msg\<rparr>"
  by (simp add: caught_def)

text \<open>
  C6. With a provider configured, \<open>extractReasoning\<close> issues one request and its promise
  always resolves: to \<open>{success: true, data}\<close> with the parsed body when the status is
  2xx, and to \<open>{success: false, error}\<close> with a non-empty message when the status is not
  2xx, when \<open>fetch\<close> rejects or when parsing the body throws.
\<close>

theorem extractReasoning_normalizes:
  assumes "truthy (client_provider c)"
  shows "fst (extractReasoning c net p r) = [extract_request c p r] \<and>
    (\<forall>res d. net (extract_request c p r) = FetchResolves res \<and>
         200 \<le> status res \<and> status res \<le> 299 \<and> json res = JsonParsed d \<longrightarrow>
       snd (extractReasoning c net p r) = Inr \<lparr>success = True, data = Some d, error = None\<rparr>) \<and>
    ((\<exists>e. net (extract_request c p r) = FetchRejects e) \<or>
     (\<exists>res. net (extract_request c p r) = FetchResolves res \<and>
        (\<not> (200 \<le> status res \<and> status res \<le> 299) \<or> (\<exists>e. json res = JsonThrows e))) \<longrightarrow>
       (\<exists>msg. msg \<noteq> [] \<and>
          snd (extractReasoning c net p r) = Inr \<lparr>success = False, data = None, error = Some msg\<rparr>))"
proof -
  let ?req = "extract_request c p r"
  have issued: "fst (extractReasoning c net p r) = [?req]"
    using assms by (simp add: extractReasoning_def Let_def)
  have good: "snd (extractReasoning c net p r) = Inr \<lparr>success = True, data = Some d, error = None\<rparr>"
    if "net ?req = FetchResolves res" "200 \<le> status res" "status res \<le> 299" "json res = JsonParsed d"
    for res d
    using assms that by (simp add: extractReasoning_def Let_def ok_def)
  have bad1: "\<exists>msg. msg \<noteq> [] \<and>
      snd (extractReasoning c net p r) = Inr \<lparr>success = False, data = None, error = Some msg\<rparr>"
    if "net ?req = FetchRejects e" for e
    using assms that caught_failure [of e]
    by (simp add: extractReasoning_def Let_def)
  have bad2: "\<exists>msg. msg \<noteq> [] \<and>
      snd (extractReasoning c net p r) = Inr \<lparr>success = False, data = None, error = Some msg\<rparr>"
    if "net ?req = FetchResolves res" "\<not> (200 \<le> status res \<and> status res \<le> 299)" for res
    using assms that
      caught_failure [of "\<lparr>message = ''HTTP '' @ number_toString (status res) @ '': '' @ statusText res\<rparr>"]
    by (simp add: extractReasoning_def Let_def ok_def)
  have bad3: "\<exists>msg. msg \<noteq> [] \<and>
      snd (extractReasoning c net p r) = Inr \<lparr>success = False, data = None, error = Some msg\<rparr>"
    if "net ?req = FetchResolves res" "json res = JsonThrows e" for res e
  proof (cases "ok res")
    case True
    with assms that caught_failure [of e] show ?thesis
      by (simp add: extractReasoning_def Let_def)
  next
    case False
    with that(1) show ?thesis by (intro bad2) (simp_all add: ok_def)
  qed
  from issued good bad1 bad2 bad3 show ?thesis by blast
qed

theorem extractReasoning_normalizes_witness:
  "truthy (client_provider (new_AssumptionsAPIClient (Str ''openai''))) \<and>
   snd (extractReasoning (new_AssumptionsAPIClient (Str ''openai''))
          (\<lambda>_. FetchResolves \<lparr>status = 200, statusText = ''OK'', json = JsonParsed [''a'']\<rparr>)
          ''p'' ''r'')
     = Inr \<lparr>success = True, data = Some [''a''], error = None\<rparr> \<and>
   (\<exists>msg. msg \<noteq> [] \<and>
      snd (extractReasoning (new_AssumptionsAPIClient (Str ''openai''))
             (\<lambda>_. FetchResolves \<lparr>status = 500, statusText = ''Internal Server Error'',
                                   json = JsonParsed [''a'']\<rparr>)
             ''p'' ''r'')
        = Inr \<lparr>success = False, data = None, error = Some msg\<rparr>)"
  using
    extractReasoning_normalizes [of "new_AssumptionsAPIClient (Str ''openai'')"
      "\<lambda>_. FetchResolves \<lparr>status = 200, statusText = ''OK'', json = JsonParsed [''a'']\<rparr>"
      "''p''" "''r''"]
    extractReasoning_normalizes [of "new_AssumptionsAPIClient (Str ''openai'')"
      "\<lambda>_. FetchResolves \<lparr>status = 500, statusText = ''Internal Server Error'',
                             json = JsonParsed [''a'']\<rparr>"
      "''p''" "''r''"]
  by (simp add: new_AssumptionsAPIClient_def)

text \<open>
  C10. On a client whose provider is falsy (the empty string, \<open>undefined\<close>, \<open>null\<close>,
  \<open>false\<close>), \<open>extractReasoning\<close> issues no request and its promise rejects with the
  "Provider is required" error; with a truthy provider the promise never rejects, every
  later error being turned into a failure result.
\<close>

theorem extractReasoning_provider_guard:
  "(\<not> truthy (client_provider c) \<longrightarrow>
      extractReasoning c net p r =
        ([], Inl \<lparr>message = ''Provider is required for extracting reasoning.''\<rparr>)) \<and>
   (truthy (client_provider c) \<longrightarrow>
      (\<exists>res. snd (extractReasoning c net p r) = Inr res) \<and>
      (\<forall>e. net (extract_request c p r) = FetchRejects e \<longrightarrow>
         snd (extractReasoning c net p r) = Inr (caught e)))"
  by (simp add: extractReasoning_def Let_def)

theorem extractReasoning_provider_guard_witness:
  "\<not> truthy (client_provider (new_AssumptionsAPIClient (Str ''''))) \<and>
   extractReasoning (new_AssumptionsAPIClient (Str ''''))
      (\<lambda>_. FetchResolves \<lparr>status = 200, statusText = ''OK'', json = JsonParsed [''a'']\<rparr>) ''p'' ''r''
     = ([], Inl \<lparr>message = ''Provider is required for extracting reasoning.''\<rparr>) \<and>
   truthy (client_provider (new_AssumptionsAPIClient (Str ''openai''))) \<and>
   snd (extractReasoning (new_AssumptionsAPIClient (Str ''openai''))
      (\<lambda>_. FetchRejects \<lparr>message = ''Failed to fetch''\<rparr>) ''p'' ''r'')
     = Inr (\<lparr>success = False, data = None, error = Some ''Failed to fetch''\<rparr> :: string list ReasoningResult)"
  using
    extractReasoning_provider_guard [of "new_AssumptionsAPIClient (Str '''')"
      "\<lambda>_. FetchResolves \<lparr>status = 200, statusText = ''OK'', json = JsonParsed [''a'']\<rparr>"
      "''p''" "''r''"]
    extractReasoning_provider_guard [of "new_AssumptionsAPIClient (Str ''openai'')"
      "\<lambda>_. FetchRejects \<lparr>message = ''Failed to fetch''\<rparr> :: string list fetch_outcome"
      "''p''" "''r''"]
  by (simp add: new_AssumptionsAPIClient_def caught_def)

section \<open>The store as the controller updates it\<close>

lemma mode_names [simp]:
  "EDIT \<noteq> ANALYZING" "EDIT \<noteq> ASSUMPTIONS" "ANALYZING \<noteq> ASSUMPTIONS"
  "ANALYZING \<noteq> EDIT" "ASSUMPTIONS \<noteq> EDIT" "ASSUMPTIONS \<noteq> ANALYZING"
  by (simp_all add: EDIT_def ANALYZING_def ASSUMPTIONS_def)

lemma get_prop_add:
  "get_prop (st ++ u) k = (case u k of None \<Rightarrow> get_prop st k | Some v \<Rightarrow> v)"
  by (simp add: get_prop_def map_add_def split: option.splits)

lemma get_prop_upd [simp]:
  "get_prop (st(k \<mapsto> v)) k' = (if k' = k then v else get_prop st k')"
  by (simp add: get_prop_def)

lemma arraysEqual_iff: "arraysEqual v1 v2 \<longleftrightarrow> arr_or_empty v1 = arr_or_empty v2"
proof -
  have "arr_or_empty v1 = arr_or_empty v2 \<longleftrightarrow>
        length (arr_or_empty v1) = length (arr_or_empty v2) \<and>
        (\<forall>i<length (arr_or_empty v1). arr_or_empty v1 ! i = arr_or_empty v2 ! i)"
    by (rule list_eq_iff_nth_eq)
  then show ?thesis
    by (auto simp: arraysEqual_def Let_def)
qed

lemma handleStateChange_stateManager:
  "stateManager (handleStateChange n old pm) = stateManager pm"
  by (simp add: handleStateChange_def updateModeUI_def Let_def)

lemma foldl_invoke_stateManager:
  "stateManager (foldl (\<lambda>q (l, n, old). invoke_listener l n old q) pm calls) = stateManager pm"
proof (induction calls arbitrary: pm)
  case Nil
  then show ?case by simp
next
  case (Cons c calls)
  obtain l n old where c: "c = (l, n, old)" by (cases c)
  show ?case by (cases l) (simp add: c Cons.IH handleStateChange_stateManager)
qed

lemma pm_setState_stateManager:
  "stateManager (pm_setState u pm) = (stateManager pm)\<lparr>state := state (stateManager pm) ++ u\<rparr>"
  by (simp add: pm_setState_def setState_def Let_def foldl_invoke_stateManager)

lemma pm_setState_subscribed:
  "listeners (stateManager pm) = [PanelListener] \<Longrightarrow>
   pm_setState u pm =
     handleStateChange (state (stateManager pm) ++ u) (state (stateManager pm))
       (pm\<lparr>stateManager := (stateManager pm)\<lparr>state := state (stateManager pm) ++ u\<rparr>\<rparr>)"
  by (simp add: pm_setState_def setState_def Let_def notifyListeners_def)

lemma app_state_pm_setState: "app_state (pm_setState u pm) = app_state pm ++ u"
  by (simp add: app_state_def getState_def pm_setState_stateManager)

lemma app_state_fields [simp]:
  "app_state (pm\<lparr>inputPage := ip\<rparr>) = app_state pm"
  "app_state (pm\<lparr>assumptionsPage := ap\<rparr>) = app_state pm"
  "app_state (pm\<lparr>pending := q\<rparr>) = app_state pm"
  "app_state (pm\<lparr>insertPrompt_calls := t\<rparr>) = app_state pm"
  "app_state (pm\<lparr>panel_visible := b\<rparr>) = app_state pm"
  by (simp_all add: app_state_def)

lemma pm_setState_forward:
  assumes "listeners (stateManager pm) = [PanelListener]"
  shows "forwardBtn_display (inputPage (pm_setState u pm)) =
     (if get_prop (app_state pm ++ u) ''currentMode'' \<noteq> get_prop (app_state pm) ''currentMode''
      then get_prop (app_state pm ++ u) ''currentMode'' = Str EDIT \<and>
           has_items (get_prop (app_state pm ++ u) ''assumptions'')
      else forwardBtn_display (inputPage pm))"
  by (simp add: pm_setState_subscribed [OF assms] handleStateChange_def updateModeUI_def Let_def
      app_state_def getState_def showForwardButton_def hideForwardButton_def)

lemma pm_setState_asp_display:
  assumes "listeners (stateManager pm) = [PanelListener]"
  shows "asp_display (assumptionsPage (pm_setState u pm)) =
     (if get_prop (app_state pm ++ u) ''currentMode'' \<noteq> get_prop (app_state pm) ''currentMode''
      then get_prop (app_state pm ++ u) ''currentMode'' = Str ASSUMPTIONS
      else asp_display (assumptionsPage pm))"
  by (simp add: pm_setState_subscribed [OF assms] handleStateChange_def updateModeUI_def Let_def
      app_state_def getState_def asp_setAssumptions_def renderAssumptions_def)

lemma pm_setState_asp_assumptions:
  assumes "listeners (stateManager pm) = [PanelListener]"
  shows "asp_assumptions (assumptionsPage (pm_setState u pm)) =
     (if arr_or_empty (get_prop (app_state pm ++ u) ''assumptions'') \<noteq> arr_or_empty (get_prop (app_state pm) ''assumptions'')
      then arr_or_empty (get_prop (app_state pm ++ u) ''assumptions'')
      else asp_assumptions (assumptionsPage pm))"
  by (simp add: pm_setState_subscribed [OF assms] handleStateChange_def updateModeUI_def Let_def
      app_state_def getState_def asp_setAssumptions_def renderAssumptions_def arraysEqual_iff)

section \<open>Invariants of the panel controller\<close>

text \<open>Trimming a trimmed string changes nothing.\<close>

lemma js_trim_idem: "js_trim (js_trim s) = js_trim s"
proof -
  define a where "a = dropWhile is_space s"
  define b where "b = dropWhile is_space (rev a)"
  have a: "a = [] \<or> \<not> is_space (hd a)"
    unfolding a_def by (metis hd_dropWhile)
  have b: "b = [] \<or> \<not> is_space (hd b)"
    unfolding b_def by (metis hd_dropWhile)
  have "dropWhile is_space (rev b) = rev b"
  proof (cases "b = []")
    case True
    then show ?thesis by simp
  next
    case False
    then have "rev a \<noteq> []" unfolding b_def by auto
    then have "a \<noteq> []" by simp
    with a have na: "\<not> is_space (hd a)" by simp
    obtain k where k: "rev a = k @ b"
      unfolding b_def by (metis takeWhile_dropWhile_id)
    then have "a = rev b @ rev k" by (metis rev_append rev_rev_ident)
    with False have "hd (rev b) = hd a" by simp
    with na False show ?thesis by (cases "rev b") simp_all
  qed
  moreover have "dropWhile is_space b = b"
    using b by (cases b) simp_all
  ultimately show ?thesis
    by (simp add: js_trim_def a_def [symmetric] b_def [symmetric])
qed

lemma typed_state_add: "typed_state st \<Longrightarrow> typed_update u \<Longrightarrow> typed_state (st ++ u)"
  unfolding typed_state_def typed_update_def get_prop_add
  by (auto split: option.splits)

lemma pm_setState_listeners:
  "listeners (stateManager (pm_setState u pm)) = listeners (stateManager pm)"
  by (simp add: pm_setState_stateManager)

lemma panel_inv_pm_setState:
  assumes "panel_inv pm"
    and "u ''assumptions'' = None \<or> get_prop (app_state pm ++ u) ''currentMode'' \<noteq> Str EDIT"
  shows "panel_inv (pm_setState u pm)"
proof -
  from assms(1) have sub: "listeners (stateManager pm) = [PanelListener]"
    by (simp add: panel_inv_def)
  from assms(2) have keep: "get_prop (app_state pm ++ u) ''currentMode'' = Str EDIT \<Longrightarrow>
    get_prop (app_state pm ++ u) ''assumptions'' = get_prop (app_state pm) ''assumptions''"
    by (auto simp: get_prop_add)
  show ?thesis
    using assms(1) keep unfolding panel_inv_def forward_visible_def
    by (auto simp: pm_setState_listeners pm_setState_forward [OF sub]
        pm_setState_asp_display [OF sub] app_state_pm_setState)
qed

text \<open>Each handler keeps the invariant.\<close>

lemma panel_inv_pending [simp]: "panel_inv (pm\<lparr>pending := q\<rparr>) = panel_inv pm"
  by (simp add: panel_inv_def forward_visible_def app_state_def)

lemma panel_inv_inserted [simp]: "panel_inv (pm\<lparr>insertPrompt_calls := q\<rparr>) = panel_inv pm"
  by (simp add: panel_inv_def forward_visible_def app_state_def)

lemma panel_inv_visible [simp]: "panel_inv (pm\<lparr>panel_visible := q\<rparr>) = panel_inv pm"
  by (simp add: panel_inv_def forward_visible_def app_state_def)

lemma panel_inv_inputPage:
  "panel_inv pm \<Longrightarrow> forwardBtn_display ip \<longrightarrow> forwardBtn_display (inputPage pm) \<Longrightarrow>
   panel_inv (pm\<lparr>inputPage := ip\<rparr>)"
  by (simp add: panel_inv_def forward_visible_def app_state_def)

lemma panel_inv_assumptionsPage:
  "panel_inv pm \<Longrightarrow> asp_display ap \<longrightarrow> asp_display (assumptionsPage pm) \<Longrightarrow>
   panel_inv (pm\<lparr>assumptionsPage := ap\<rparr>)"
  by (simp add: panel_inv_def forward_visible_def app_state_def)

lemma panel_inv_enterEditMode: "panel_inv pm \<Longrightarrow> panel_inv (enterEditMode pm)"
  unfolding enterEditMode_def by (rule panel_inv_pm_setState) simp_all

lemma panel_inv_back_to_edit: "panel_inv pm \<Longrightarrow> panel_inv (back_to_edit pm)"
  unfolding back_to_edit_def by (rule panel_inv_pm_setState) simp_all

lemma panel_inv_handleForward: "panel_inv pm \<Longrightarrow> panel_inv (handleForward pm)"
  unfolding handleForward_def Let_def by (simp add: panel_inv_pm_setState)

lemma panel_inv_begin: "panel_inv pm \<Longrightarrow> panel_inv (handleAnalyze_begin p r pm)"
  unfolding handleAnalyze_begin_def Let_def by (simp add: panel_inv_pm_setState)

lemma asp_setAssumptions_display [simp]:
  "asp_display (asp_setAssumptions xs ap) = asp_display ap"
  by (simp add: asp_setAssumptions_def renderAssumptions_def)

lemma renderAssumptions_display [simp]:
  "asp_display (renderAssumptions ap) = asp_display ap"
  by (simp add: renderAssumptions_def)

lemma panel_inv_settle: "panel_inv pm \<Longrightarrow> panel_inv (handleAnalyze_settle k outcome pm)"
  unfolding handleAnalyze_settle_def Let_def
  by (auto simp: panel_inv_back_to_edit panel_inv_pm_setState
      intro!: panel_inv_assumptionsPage split: sum.splits option.splits)

lemma panel_inv_analyzeBtn_click: "panel_inv pm \<Longrightarrow> panel_inv (analyzeBtn_click pm)"
  unfolding analyzeBtn_click_def Let_def
  by (auto simp: panel_inv_begin hideForwardButton_def updateAnalyzeButton_def Let_def
      intro!: panel_inv_inputPage)

lemma panel_inv_handleUpdateAssumptions:
  "panel_inv pm \<Longrightarrow> asp_display (assumptionsPage pm) \<Longrightarrow>
   panel_inv (handleUpdateAssumptions xs pm)"
  unfolding handleUpdateAssumptions_def
  by (rule panel_inv_pm_setState) (auto simp: panel_inv_def get_prop_add)

lemma panel_inv_updateAssumptionsState:
  "panel_inv pm \<Longrightarrow> asp_display (assumptionsPage pm) \<Longrightarrow>
   panel_inv (updateAssumptionsState pm)"
  unfolding updateAssumptionsState_def Let_def
  by (intro panel_inv_handleUpdateAssumptions panel_inv_assumptionsPage) simp_all

lemma panel_inv_delBtn_click:
  "panel_inv pm \<Longrightarrow> asp_display (assumptionsPage pm) \<Longrightarrow> panel_inv (delBtn_click i pm)"
  unfolding delBtn_click_def Let_def
  by (intro panel_inv_updateAssumptionsState panel_inv_assumptionsPage) simp_all

lemma panel_inv_input_keydown:
  "panel_inv pm \<Longrightarrow> asp_display (assumptionsPage pm) \<Longrightarrow> panel_inv (input_keydown i key pm)"
  unfolding input_keydown_def Let_def
  by (auto split: option.splits
      intro!: panel_inv_updateAssumptionsState panel_inv_assumptionsPage)

lemma panel_inv_insertSelection: "panel_inv pm \<Longrightarrow> panel_inv (insertSelection w sel pm)"
  unfolding insertSelection_def Let_def pm_setUserPrompt_def pm_setAIResponse_def pm_show_def
  by (auto simp: ip_setUserPrompt_def ip_setAIResponse_def handleInputChange_def
      hideForwardButton_def updateAnalyzeButton_def Let_def
      intro!: panel_inv_enterEditMode panel_inv_inputPage)

lemma panel_inv_step: "panel_inv pm \<Longrightarrow> panel_inv (step pm ev)"
proof (cases ev)
  case InputDebounceFires
  assume "panel_inv pm"
  then show ?thesis unfolding InputDebounceFires
    by (auto simp: handleInputChange_def hideForwardButton_def updateAnalyzeButton_def Let_def
        intro!: panel_inv_inputPage)
next
  case (FetchSettles k answer)
  assume "panel_inv pm"
  then show ?thesis unfolding FetchSettles
    by (simp add: split_beta Let_def panel_inv_settle)
qed (auto simp: panel_inv_analyzeBtn_click forwardBtn_click_def panel_inv_handleForward
      panel_inv_enterEditMode handleReprompt_def Let_def bubble_event_def
      editBtn_click_def input_typed_def input_blur_def pm_show_def pm_hide_def
      panel_inv_input_keydown panel_inv_delBtn_click panel_inv_insertSelection
      intro!: panel_inv_inputPage panel_inv_assumptionsPage)

lemma panel_inv_run: "panel_inv pm \<Longrightarrow> panel_inv (run evs pm)"
  unfolding run_def by (induction evs arbitrary: pm) (simp_all add: panel_inv_step)

lemma panel_inv_app_panel: "panel_inv (app_panel c)"
  by (simp add: panel_inv_def app_panel_def new_PanelManager_def Let_def updateModeUI_def
      new_StateManager_def subscribe_def forward_visible_def app_state_def getState_def
      default_state_def get_prop_def new_InputPage_def new_AssumptionsPage_def
      hideForwardButton_def showForwardButton_def)

subsection \<open>Bubbles and the page's list\<close>

lemma bubbles_ok_render [simp]: "bubbles_ok (renderAssumptions ap)"
  by (simp add: bubbles_ok_def renderAssumptions_def)

lemma bubbles_ok_setAssumptions [simp]: "bubbles_ok (asp_setAssumptions xs ap)"
  by (simp add: asp_setAssumptions_def)

lemma bubbles_ok_display [simp]: "bubbles_ok (ap\<lparr>asp_display := d\<rparr>) = bubbles_ok ap"
  by (simp add: bubbles_ok_def)

lemma bubbles_ok_bubble_update [simp]:
  "bubbles_ok (ap\<lparr>bubbles := (bubbles ap)[i := b]\<rparr>) = bubbles_ok ap"
  by (simp add: bubbles_ok_def)

lemma handleStateChange_bubbles_ok:
  "bubbles_ok (assumptionsPage pm) \<Longrightarrow> bubbles_ok (assumptionsPage (handleStateChange n old pm))"
  by (simp add: handleStateChange_def updateModeUI_def Let_def)

lemma foldl_invoke_bubbles_ok:
  "bubbles_ok (assumptionsPage pm) \<Longrightarrow>
   bubbles_ok (assumptionsPage (foldl (\<lambda>q (l, n, old). invoke_listener l n old q) pm calls))"
proof (induction calls arbitrary: pm)
  case Nil
  then show ?case by simp
next
  case (Cons c calls)
  obtain l n old where c: "c = (l, n, old)" by (cases c)
  from Cons.prems show ?case
    by (cases l) (simp add: c Cons.IH handleStateChange_bubbles_ok)
qed

lemma pm_setState_bubbles_ok:
  "bubbles_ok (assumptionsPage pm) \<Longrightarrow> bubbles_ok (assumptionsPage (pm_setState u pm))"
  by (simp add: pm_setState_def split_beta Let_def foldl_invoke_bubbles_ok)

text \<open>The page's list after a store update that carries this same list.\<close>

lemma handleStateChange_asp_same:
  "asp_assumptions (assumptionsPage pm) = arr_or_empty (get_prop n ''assumptions'') \<Longrightarrow>
   asp_assumptions (assumptionsPage (handleStateChange n old pm)) = arr_or_empty (get_prop n ''assumptions'')"
  by (simp add: handleStateChange_def updateModeUI_def Let_def asp_setAssumptions_def
      renderAssumptions_def)

lemma foldl_invoke_asp_same:
  "asp_assumptions (assumptionsPage pm) = xs \<Longrightarrow>
   \<forall>c \<in> set calls. arr_or_empty (get_prop (fst (snd c)) ''assumptions'') = xs \<Longrightarrow>
   asp_assumptions (assumptionsPage (foldl (\<lambda>q (l, n, old). invoke_listener l n old q) pm calls)) = xs"
proof (induction calls arbitrary: pm)
  case Nil
  then show ?case by simp
next
  case (Cons c calls)
  obtain l n old where c: "c = (l, n, old)" by (cases c)
  from Cons.prems have n: "arr_or_empty (get_prop n ''assumptions'') = xs"
    by (simp add: c)
  have "asp_assumptions (assumptionsPage (handleStateChange n old pm)) = xs"
    using handleStateChange_asp_same [of pm n old] Cons.prems(1) n by simp
  with Cons.prems(2) show ?case
    by (cases l) (simp add: c Cons.IH)
qed

lemma handleUpdateAssumptions_page:
  "asp_assumptions (assumptionsPage pm) = xs \<Longrightarrow>
   asp_assumptions (assumptionsPage (handleUpdateAssumptions xs pm)) = xs"
  unfolding handleUpdateAssumptions_def pm_setState_def
  by (simp add: split_beta Let_def setState_def notifyListeners_def foldl_invoke_asp_same)

lemma updateAssumptionsState_page:
  "asp_assumptions (assumptionsPage (updateAssumptionsState pm)) = asp_assumptions (assumptionsPage pm)"
  unfolding updateAssumptionsState_def Let_def
  by (rule trans [OF handleUpdateAssumptions_page]) (simp_all add: renderAssumptions_def)

lemma updateAssumptionsState_store:
  "get_prop (app_state (updateAssumptionsState pm)) ''assumptions'' = Arr (asp_assumptions (assumptionsPage pm))"
  unfolding updateAssumptionsState_def Let_def handleUpdateAssumptions_def
  by (simp add: app_state_pm_setState renderAssumptions_def)

lemma updateAssumptionsState_store_other:
  "k \<noteq> ''assumptions'' \<Longrightarrow>
   get_prop (app_state (updateAssumptionsState pm)) k = get_prop (app_state pm) k"
  unfolding updateAssumptionsState_def Let_def handleUpdateAssumptions_def
  by (simp add: app_state_pm_setState)

subsection \<open>Types of the fields\<close>

lemma typed_pm_setState:
  "typed_state (app_state pm) \<Longrightarrow> typed_update u \<Longrightarrow> typed_state (app_state (pm_setState u pm))"
  by (simp add: app_state_pm_setState typed_state_add)

lemma typed_enterEditMode: "typed_state (app_state pm) \<Longrightarrow> typed_state (app_state (enterEditMode pm))"
  unfolding enterEditMode_def by (rule typed_pm_setState) (simp_all add: typed_update_def)

lemma typed_back_to_edit: "typed_state (app_state pm) \<Longrightarrow> typed_state (app_state (back_to_edit pm))"
  unfolding back_to_edit_def by (rule typed_pm_setState) (simp_all add: typed_update_def)

lemma typed_handleForward: "typed_state (app_state pm) \<Longrightarrow> typed_state (app_state (handleForward pm))"
  unfolding handleForward_def Let_def
  by (simp add: typed_pm_setState typed_update_def)

lemma typed_begin:
  "typed_state (app_state pm) \<Longrightarrow> js_trim p = p \<Longrightarrow>
   typed_state (app_state (handleAnalyze_begin p r pm))"
  unfolding handleAnalyze_begin_def Let_def
  by (simp add: typed_pm_setState typed_update_def)

lemma typed_settle:
  "typed_state (app_state pm) \<Longrightarrow> typed_state (app_state (handleAnalyze_settle k outcome pm))"
  unfolding handleAnalyze_settle_def Let_def
  by (auto simp: typed_back_to_edit typed_pm_setState typed_update_def
      split: sum.splits option.splits)

lemma typed_updateAssumptionsState:
  "typed_state (app_state pm) \<Longrightarrow> typed_state (app_state (updateAssumptionsState pm))"
  unfolding updateAssumptionsState_def Let_def handleUpdateAssumptions_def
  by (simp add: typed_pm_setState typed_update_def)

lemma typed_step: "typed_state (app_state pm) \<Longrightarrow> typed_state (app_state (step pm ev))"
proof (cases ev)
  case (FetchSettles k answer)
  assume "typed_state (app_state pm)"
  then show ?thesis unfolding FetchSettles
    by (simp add: split_beta Let_def typed_settle)
qed (auto simp: analyzeBtn_click_def getUserPrompt_def js_trim_idem typed_begin Let_def
      forwardBtn_click_def typed_handleForward typed_enterEditMode handleReprompt_def
      delBtn_click_def input_keydown_def typed_updateAssumptionsState
      insertSelection_def pm_setUserPrompt_def pm_setAIResponse_def pm_show_def pm_hide_def
      split: option.splits)

lemma typed_app_panel: "typed_state (app_state (app_panel c))"
  by (simp add: typed_state_def app_panel_def new_PanelManager_def Let_def updateModeUI_def
      new_StateManager_def subscribe_def app_state_def getState_def
      default_state_def get_prop_def js_trim_def)

lemma run_typed: "typed_state (app_state (run evs (app_panel c)))"
proof -
  have "typed_state (app_state pm) \<Longrightarrow> typed_state (app_state (run evs pm))" for pm
    unfolding run_def by (induction evs arbitrary: pm) (simp_all add: typed_step)
  then show ?thesis by (simp add: typed_app_panel)
qed

lemma bubbles_ok_updateAssumptionsState:
  "bubbles_ok (assumptionsPage (updateAssumptionsState pm))"
  unfolding updateAssumptionsState_def Let_def handleUpdateAssumptions_def
  by (simp add: pm_setState_bubbles_ok)

lemma bubbles_ok_step:
  "bubbles_ok (assumptionsPage pm) \<Longrightarrow> bubbles_ok (assumptionsPage (step pm ev))"
proof (cases ev)
  case (FetchSettles k answer)
  assume "bubbles_ok (assumptionsPage pm)"
  then show ?thesis unfolding FetchSettles
    by (auto simp: split_beta Let_def handleAnalyze_settle_def back_to_edit_def
        pm_setState_bubbles_ok split: sum.splits option.splits)
qed (auto simp: analyzeBtn_click_def handleAnalyze_begin_def Let_def pm_setState_bubbles_ok
      forwardBtn_click_def handleForward_def enterEditMode_def handleReprompt_def
      delBtn_click_def input_keydown_def bubbles_ok_updateAssumptionsState
      editBtn_click_def input_typed_def input_blur_def
      insertSelection_def pm_setUserPrompt_def pm_setAIResponse_def pm_show_def pm_hide_def
      split: option.splits)

lemma run_bubbles: "bubbles_ok (assumptionsPage (run evs (app_panel c)))"
proof -
  have "bubbles_ok (assumptionsPage pm) \<Longrightarrow> bubbles_ok (assumptionsPage (run evs pm))" for pm
    unfolding run_def by (induction evs arbitrary: pm) (simp_all add: bubbles_ok_step)
  moreover have "bubbles_ok (assumptionsPage (app_panel c))"
    by (simp add: bubbles_ok_def app_panel_def new_PanelManager_def Let_def updateModeUI_def
        new_AssumptionsPage_def)
  ultimately show ?thesis by simp
qed

lemma run_inv: "panel_inv (run evs (app_panel c))"
  by (simp add: panel_inv_run panel_inv_app_panel)

section \<open>Deleting an assumption\<close>

lemma splice1_length: "i < length xs \<Longrightarrow> length (splice1 i xs) = length xs - 1"
  by (simp add: splice1_def)

lemma splice1_before: "j < i \<Longrightarrow> i < length xs \<Longrightarrow> splice1 i xs ! j = xs ! j"
  by (simp add: splice1_def nth_append)

lemma splice1_after: "i \<le> j \<Longrightarrow> Suc j < length xs \<Longrightarrow> splice1 i xs ! j = xs ! Suc j"
  by (simp add: splice1_def nth_append min_def)

lemma delBtn_click_page:
  "asp_assumptions (assumptionsPage (delBtn_click i pm)) = splice1 i (asp_assumptions (assumptionsPage pm))"
  unfolding delBtn_click_def Let_def by (simp add: updateAssumptionsState_page)

lemma delBtn_click_store:
  "get_prop (app_state (delBtn_click i pm)) ''assumptions'' = Arr (splice1 i (asp_assumptions (assumptionsPage pm)))"
  unfolding delBtn_click_def Let_def by (simp add: updateAssumptionsState_store)

text \<open>
  C7. The delete handler of the bubble at index \<open>i\<close> of a list of length \<open>n\<close> leaves the
  page with the list without its element at \<open>i\<close>: it has length \<open>n - 1\<close>, the elements
  before \<open>i\<close> stay where they were and those after \<open>i\<close> move down by one, in their
  order. This list is what the update callback stores in the state.
\<close>

theorem delete_removes_index:
  assumes "i < length (asp_assumptions (assumptionsPage pm))"
  shows "let xs = asp_assumptions (assumptionsPage pm);
             ys = asp_assumptions (assumptionsPage (delBtn_click i pm))
         in ys = take i xs @ drop (Suc i) xs \<and>
            length ys = length xs - 1 \<and>
            (\<forall>j<i. ys ! j = xs ! j) \<and>
            (\<forall>j. i \<le> j \<and> j < length ys \<longrightarrow> ys ! j = xs ! Suc j) \<and>
            get_prop (app_state (delBtn_click i pm)) ''assumptions'' = Arr ys"
proof -
  let ?xs = "asp_assumptions (assumptionsPage pm)"
  have after: "\<forall>j. i \<le> j \<and> j < length (splice1 i ?xs) \<longrightarrow> splice1 i ?xs ! j = ?xs ! Suc j"
    using assms by (auto simp: splice1_length intro!: splice1_after)
  have before: "\<forall>j<i. splice1 i ?xs ! j = ?xs ! j"
    using assms by (simp add: splice1_before)
  have "splice1 i ?xs = take i ?xs @ drop (Suc i) ?xs"
    by (simp add: splice1_def)
  with before after assms show ?thesis
    by (simp only: Let_def delBtn_click_page delBtn_click_store splice1_length) simp
qed

theorem delete_removes_index_witness:
  "1 < length (asp_assumptions (assumptionsPage (run example_analysis (app_panel example_client)))) \<and>
   asp_assumptions (assumptionsPage (run example_analysis (app_panel example_client))) = [''X'', ''Y''] \<and>
   asp_assumptions (assumptionsPage
      (delBtn_click 1 (run example_analysis (app_panel example_client)))) = [''X''] \<and>
   get_prop (app_state (delBtn_click 1 (run example_analysis (app_panel example_client))))
      ''assumptions'' = Arr [''X'']"
proof -
  have xs: "asp_assumptions (assumptionsPage (run example_analysis (app_panel example_client))) = [''X'', ''Y'']"
    by code_simp
  from delete_removes_index [of 1 "run example_analysis (app_panel example_client)"] xs
  show ?thesis by (simp add: Let_def)
qed

section \<open>The outcome of an analysis\<close>

lemma run_snoc: "run (evs @ [ev]) pm = step (run evs pm) ev"
  by (simp add: run_def)

lemma back_to_edit_state:
  "app_state (back_to_edit pm) = (app_state pm)(''isAnalyzing'' \<mapsto> Bool False, ''currentMode'' \<mapsto> Str EDIT)"
  by (simp add: back_to_edit_def app_state_pm_setState)

lemma settle_failed:
  "analysis_failed outcome \<Longrightarrow>
   handleAnalyze_settle k outcome pm = back_to_edit (pm\<lparr>pending := splice1 k (pending pm)\<rparr>)"
  by (simp add: analysis_failed_def handleAnalyze_settle_def Let_def split: sum.splits)

lemma back_to_edit_forward:
  assumes "panel_inv pm" and "\<not> has_items (get_prop (app_state pm) ''assumptions'')"
  shows "\<not> forward_visible (back_to_edit pm)"
proof -
  from assms(1) have sub: "listeners (stateManager pm) = [PanelListener]"
    and hid: "\<not> forward_visible pm"
    using assms(2) by (auto simp: panel_inv_def)
  show ?thesis
    using hid assms(2) unfolding forward_visible_def back_to_edit_def
    by (simp add: pm_setState_forward [OF sub])
qed

lemma typed_has_items:
  "typed_state (app_state pm) \<Longrightarrow>
   has_items (get_prop (app_state pm) ''assumptions'') = (assumptions_of pm \<noteq> [])"
  by (auto simp: typed_state_def assumptions_of_def)

lemma success_caught [simp]: "\<not> success (caught e)"
  by (simp add: caught_def)

lemma extractReasoning_failed:
  "\<not> truthy (client_provider cl) \<or> (\<exists>e. answer = FetchRejects e) \<or>
     (\<exists>res. answer = FetchResolves res \<and>
        (\<not> (200 \<le> status res \<and> status res \<le> 299) \<or> (\<exists>e. json res = JsonThrows e))) \<Longrightarrow>
   analysis_failed (snd (extractReasoning cl (\<lambda>req. answer) p r))"
  by (auto simp: analysis_failed_def extractReasoning_def Let_def ok_def
      split: json_outcome.splits if_splits)

text \<open>
  C3. When the promise of \<open>extractReasoning\<close> rejects, or resolves to a result whose
  \<open>success\<close> is false, the controller, in whatever state a run has brought it to, sets
  \<open>currentMode\<close> to \<open>edit\<close> and \<open>isAnalyzing\<close> to false and leaves the assumptions as they
  were; when the list is empty the Forward button is hidden afterwards.
\<close>

theorem analyze_failure_reverts:
  assumes "analysis_failed outcome"
  shows "let pm = run evs (app_panel c);
             pm' = handleAnalyze_settle k outcome pm
         in mode_of pm' = Str EDIT \<and>
            get_prop (app_state pm') ''isAnalyzing'' = Bool False \<and>
            assumptions_of pm' = assumptions_of pm \<and>
            get_prop (app_state pm') ''assumptions'' = get_prop (app_state pm) ''assumptions'' \<and>
            (assumptions_of pm = [] \<longrightarrow> \<not> forward_visible pm')"
proof -
  let ?pm = "run evs (app_panel c)"
  let ?q = "?pm\<lparr>pending := splice1 k (pending ?pm)\<rparr>"
  have settle: "handleAnalyze_settle k outcome ?pm = back_to_edit ?q"
    using assms by (rule settle_failed)
  have inv: "panel_inv ?q" by (simp add: run_inv)
  have "assumptions_of ?pm = [] \<Longrightarrow> \<not> forward_visible (back_to_edit ?q)"
    using typed_has_items [OF run_typed, of evs c]
    by (intro back_to_edit_forward [OF inv]) simp
  then show ?thesis
    by (simp add: Let_def settle mode_of_def assumptions_of_def back_to_edit_state)
qed

theorem analyze_failure_reverts_witness:
  "analysis_failed
     (snd (extractReasoning example_client (\<lambda>req. FetchRejects \<lparr>message = ''Failed to fetch''\<rparr>) ''p'' ''r'')
        :: js_error + response_data ReasoningResult) \<and>
   mode_of (run [UserTypesPrompt ''p'', UserTypesResponse ''r'', InputDebounceFires, ClickAnalyze]
              (app_panel example_client)) = Str ANALYZING \<and>
   mode_of (run [UserTypesPrompt ''p'', UserTypesResponse ''r'', InputDebounceFires, ClickAnalyze,
                 FetchSettles 0 (FetchRejects \<lparr>message = ''Failed to fetch''\<rparr>)]
              (app_panel example_client)) = Str EDIT \<and>
   \<not> forward_visible
       (run [UserTypesPrompt ''p'', UserTypesResponse ''r'', InputDebounceFires, ClickAnalyze,
             FetchSettles 0 (FetchRejects \<lparr>message = ''Failed to fetch''\<rparr>)]
          (app_panel example_client))"
proof -
  let ?evs = "[UserTypesPrompt ''p'', UserTypesResponse ''r'', InputDebounceFires, ClickAnalyze]"
  let ?out = "snd (extractReasoning example_client
                 (\<lambda>req. FetchRejects \<lparr>message = ''Failed to fetch''\<rparr>) ''p'' ''r'')
              :: js_error + response_data ReasoningResult"
  have f: "analysis_failed ?out"
    by (simp add: extractReasoning_failed)
  have m: "mode_of (run ?evs (app_panel example_client)) = Str ANALYZING"
    by code_simp
  have e: "assumptions_of (run ?evs (app_panel example_client)) = []"
    by code_simp
  have q: "pending (run ?evs (app_panel example_client)) = [(''p'', ''r'')]"
    by code_simp
  have a: "apiClient (run ?evs (app_panel example_client)) = example_client"
    by code_simp
  have r: "run (?evs @ [FetchSettles 0 (FetchRejects \<lparr>message = ''Failed to fetch''\<rparr>)])
             (app_panel example_client)
           = handleAnalyze_settle 0 ?out (run ?evs (app_panel example_client))"
    by (simp only: run_snoc step.simps q a) simp
  from analyze_failure_reverts [OF f, of ?evs example_client 0] f m e
  show ?thesis unfolding Let_def r [symmetric] by simp
qed




section \<open>Committing and cancelling an edit\<close>






section \<open>Forward button and reprompt text\<close>

text \<open>The regular expression removes the longest run of \<open>.\<close>, \<open>?\<close>, \<open>!\<close> at the end.\<close>

lemma strip_end_punct_eq: "strip_end_punct s = rev (dropWhile is_end_punct (rev s))"
proof (induction s)
  case Nil
  then show ?case by simp
next
  case (Cons c cs)
  show ?case
  proof (cases "list_all is_end_punct (c # cs)")
    case True
    then have "dropWhile is_end_punct (rev (c # cs)) = []"
      by (simp add: list_all_iff)
    with True show ?thesis by simp
  next
    case False
    have "dropWhile is_end_punct (rev cs @ [c]) = dropWhile is_end_punct (rev cs) @ [c]"
    proof (cases "\<exists>x \<in> set (rev cs). \<not> is_end_punct x")
      case True
      then show ?thesis by (auto simp: dropWhile_append1)
    next
      case all: False
      with False have "\<not> is_end_punct c" by (auto simp: list_all_iff)
      moreover from all have "dropWhile is_end_punct (rev cs) = []" by simp
      moreover from all have "dropWhile is_end_punct (rev cs @ [c]) = dropWhile is_end_punct [c]"
        by (intro dropWhile_append2) simp
      ultimately show ?thesis by simp
    qed
    with False Cons.IH show ?thesis by simp
  qed
qed


lemma forward_visible_fields [simp]:
  "forward_visible (pm\<lparr>assumptionsPage := ap\<rparr>) = forward_visible pm"
  "forward_visible (pm\<lparr>pending := q\<rparr>) = forward_visible pm"
  "forward_visible (pm\<lparr>insertPrompt_calls := t\<rparr>) = forward_visible pm"
  "forward_visible (pm\<lparr>panel_visible := b\<rparr>) = forward_visible pm"
  by (simp_all add: forward_visible_def)

lemma mode_of_fields [simp]:
  "mode_of (pm\<lparr>inputPage := ip\<rparr>) = mode_of pm"
  "mode_of (pm\<lparr>assumptionsPage := ap\<rparr>) = mode_of pm"
  "mode_of (pm\<lparr>pending := q\<rparr>) = mode_of pm"
  "mode_of (pm\<lparr>insertPrompt_calls := t\<rparr>) = mode_of pm"
  "mode_of (pm\<lparr>panel_visible := b\<rparr>) = mode_of pm"
  by (simp_all add: mode_of_def)






lemma updateAssumptionsState_mode [simp]:
  "mode_of (updateAssumptionsState pm) = mode_of pm"
  by (simp add: mode_of_def updateAssumptionsState_store_other)






lemma run_saved_prompt:
  "\<exists>p. get_prop (app_state (run evs (app_panel c))) ''savedPrompt'' = Str p \<and> js_trim p = p"
  using run_typed [of evs c] by (simp add: typed_state_def)

lemma run_assumptions:
  "get_prop (app_state (run evs (app_panel c))) ''assumptions'' = Arr (assumptions_of (run evs (app_panel c)))"
  using run_typed [of evs c] by (auto simp: typed_state_def assumptions_of_def)

text \<open>
  C5. The text that the Reprompt action builds from a state is the fixed preamble,
  then the saved prompt, trimmed, without the \<open>.\<close>, \<open>?\<close> and \<open>!\<close> at its end, then the
  fixed instruction sentence, then the assumptions, each after \<open>- \<close>, joined by line
  feeds. In every state that a run reaches, the saved prompt \<open>p\<close> is trimmed already, so
  that the text handed to the adapter has \<open>p\<close> itself without the \<open>.\<close>, \<open>?\<close> and \<open>!\<close> at
  its end. For \<open>p\<close> = \<open>Translate this.\<close> and the assumptions \<open>[X, Y]\<close> the text has
  \<open>Translate this\<close> before the list and ends with the two lines \<open>- X\<close> and \<open>- Y\<close>.
\<close>

theorem reprompt_text_shape:
  "reprompt_text st =
     reprompt_preamble
       @ rev (dropWhile is_end_punct (rev (js_trim (str_or_empty (get_prop st ''savedPrompt'')))))
       @ reprompt_instruction
       @ js_join [CHR 0x0A] (map (\<lambda>a. ''- '' @ a) (arr_or_empty (get_prop st ''assumptions''))) \<and>
   (let pm = run evs (app_panel c);
        p = str_or_empty (get_prop (app_state pm) ''savedPrompt'');
        xs = assumptions_of pm
    in get_prop (app_state pm) ''savedPrompt'' = Str p \<and>
       get_prop (app_state pm) ''assumptions'' = Arr xs \<and>
       insertPrompt_calls (handleReprompt pm) =
         insertPrompt_calls pm @
           [reprompt_preamble @ rev (dropWhile is_end_punct (rev p)) @ reprompt_instruction
              @ js_join [CHR 0x0A] (map (\<lambda>a. ''- '' @ a) xs)] \<and>
       app_state (handleReprompt pm) = app_state pm) \<and>
   get_prop (app_state (run example_analysis (app_panel example_client))) ''savedPrompt''
     = Str ''Translate this.'' \<and>
   assumptions_of (run example_analysis (app_panel example_client)) = [''X'', ''Y''] \<and>
   insertPrompt_calls (run (example_analysis @ [ClickReprompt]) (app_panel example_client)) =
     [''Please answer the following: Translate this''
        @ ''. When answering, make ONLY the following assumptions about the user''
        @ [CHR 0x27] @ ''s request:'' @ [CHR 0x0A] @ ''- X'' @ [CHR 0x0A] @ ''- Y'']"
proof -
  let ?pm = "run evs (app_panel c)"
  obtain p where p: "get_prop (app_state ?pm) ''savedPrompt'' = Str p" "js_trim p = p"
    using run_saved_prompt [of evs c] by blast
  have general: "insertPrompt_calls (handleReprompt ?pm) =
         insertPrompt_calls ?pm @
           [reprompt_preamble @ rev (dropWhile is_end_punct (rev p)) @ reprompt_instruction
              @ js_join [CHR 0x0A] (map (\<lambda>a. ''- '' @ a) (assumptions_of ?pm))]"
    by (simp add: handleReprompt_def Let_def reprompt_text_def app_state_def [symmetric] p
        strip_end_punct_eq assumptions_of_def)
  have same: "app_state (handleReprompt ?pm) = app_state ?pm"
    by (simp add: handleReprompt_def Let_def)
  have ex1: "get_prop (app_state (run example_analysis (app_panel example_client))) ''savedPrompt''
     = Str ''Translate this.''"
    by code_simp
  have ex2: "assumptions_of (run example_analysis (app_panel example_client)) = [''X'', ''Y'']"
    by code_simp
  have ex3: "insertPrompt_calls (run (example_analysis @ [ClickReprompt]) (app_panel example_client)) =
     [''Please answer the following: Translate this''
        @ ''. When answering, make ONLY the following assumptions about the user''
        @ [CHR 0x27] @ ''s request:'' @ [CHR 0x0A] @ ''- X'' @ [CHR 0x0A] @ ''- Y'']"
    by code_simp
  have any: "reprompt_text st =
     reprompt_preamble
       @ rev (dropWhile is_end_punct (rev (js_trim (str_or_empty (get_prop st ''savedPrompt'')))))
       @ reprompt_instruction
       @ js_join [CHR 0x0A] (map (\<lambda>a. ''- '' @ a) (arr_or_empty (get_prop st ''assumptions'')))"
    by (simp add: reprompt_text_def Let_def strip_end_punct_eq)
  from any general same ex1 ex2 ex3 p(1) run_assumptions [of evs c] show ?thesis
    by (simp only: Let_def str_or_empty.simps)
qed

end
